theory Spec2Isabelle
  imports Main "HOL-Library.Char_ord" "HOL-Library.List_Lexorder"
begin

section \<open>Log extraction by date: a model of \<^verbatim>\<open>extract_logs.js\<close>\<close>

text \<open>
  The class \<^verbatim>\<open>LogExtractor\<close> reads a date-sorted log file by byte offset. The model
  keeps the file as a \<open>string\<close> (a list of bytes); the program decodes it as UTF-8, so
  bytes and characters coincide for the ASCII files the log format describes, and the
  model is about such files. JavaScript compares strings code unit by code unit, a
  proper prefix being smaller: that is the lexicographic order on \<open>char list\<close>.

  A promise either resolves with a value, is rejected with an error, or is never
  settled; an \<^verbatim>\<open>await\<close> on a promise of the last kind never returns.
\<close>

subsection \<open>Promises and errors\<close>

datatype error =
    InvalidDateFormat   \<comment> \<open>\<^verbatim>\<open>new Error('Invalid date format. Please use YYYY-MM-DD')\<close>\<close>
  | ENOENT              \<comment> \<open>\<^verbatim>\<open>fs.promises.stat\<close> of a missing log file\<close>
  | ERR_OUT_OF_RANGE    \<comment> \<open>\<^verbatim>\<open>fs.createReadStream\<close> with a negative \<^verbatim>\<open>start\<close>\<close>

datatype 'a outcome = Resolved 'a | Rejected error | Pending

abbreviation LF :: char where
  "LF \<equiv> CHR 0x0A"

abbreviation CR :: char where
  "CR \<equiv> CHR 0x0D"

subsection \<open>\<^verbatim>\<open>getDateAtPosition\<close>\<close>

text \<open>
  The read stream starts at \<open>position\<close> and its chunks are appended to \<open>data\<close> until
  \<open>data\<close> holds a newline; the promise then resolves with the first ten characters of
  what precedes the first newline. No handler is registered for the end of the
  stream: when no newline follows \<open>position\<close>, the promise is never settled.
\<close>

definition getDateAtPosition :: "string \<Rightarrow> int \<Rightarrow> string outcome" where
  "getDateAtPosition content position =
     (if position < 0 then Rejected ERR_OUT_OF_RANGE
      else
        let data = drop (nat position) content in
        if LF \<in> set data
        then
          let line = takeWhile (\<lambda>c. c \<noteq> LF) data;
              date = take 10 line
          in Resolved date
        else Pending)"

subsection \<open>\<^verbatim>\<open>binarySearch\<close>\<close>

text \<open>
  One iteration of the \<^verbatim>\<open>while (left <= right)\<close> loop, on the loop variables
  \<open>(left, right, startPosition)\<close>. \<^verbatim>\<open>Math.floor(left + (right - left) / 2)\<close> is
  \<open>left + (right - left) div 2\<close> on integers (offsets are far below \<open>2 ^ 53\<close>, where the
  arithmetic of JavaScript numbers is exact).
\<close>

definition searchStep :: "string \<Rightarrow> string \<Rightarrow> int \<times> int \<times> int \<Rightarrow> (int \<times> int \<times> int) outcome" where
  "searchStep content targetDate s =
     (case s of (left, right, startPosition) \<Rightarrow>
        let mid = left + (right - left) div 2 in
        case getDateAtPosition content mid of
          Resolved date \<Rightarrow>
            if date = targetDate then Resolved (left, mid - 1, mid)
            else if date < targetDate then Resolved (mid + 1, right, startPosition)
            else Resolved (left, mid - 1, startPosition)
        | Rejected e \<Rightarrow> Rejected e
        | Pending \<Rightarrow> Pending)"

function searchLoop :: "string \<Rightarrow> string \<Rightarrow> int \<times> int \<times> int \<Rightarrow> int outcome" where
  "searchLoop content targetDate (left, right, startPosition) =
     (if left \<le> right then
        (case searchStep content targetDate (left, right, startPosition) of
           Resolved s' \<Rightarrow> searchLoop content targetDate s'
         | Rejected e \<Rightarrow> Rejected e
         | Pending \<Rightarrow> Pending)
      else Resolved startPosition)"
  by pat_completeness auto
termination
  by (relation "measure (\<lambda>(content, targetDate, left, right, startPosition). nat (right - left + 1))")
     (auto simp: searchStep_def Let_def split: outcome.splits if_splits)

text \<open>The second loop: \<^verbatim>\<open>while (startPosition > 0)\<close>, leaving by \<^verbatim>\<open>break\<close>.\<close>

function backtrack :: "string \<Rightarrow> string \<Rightarrow> int \<Rightarrow> int outcome" where
  "backtrack content targetDate startPosition =
     (if startPosition > 0 then
        (case getDateAtPosition content (startPosition - 1) of
           Resolved prevDate \<Rightarrow>
             if prevDate \<noteq> targetDate then Resolved startPosition
             else backtrack content targetDate (startPosition - 1)
         | Rejected e \<Rightarrow> Rejected e
         | Pending \<Rightarrow> Pending)
      else Resolved startPosition)"
  by pat_completeness auto
termination
  by (relation "measure (\<lambda>(content, targetDate, startPosition). nat startPosition)") auto

text \<open>
  \<open>fileSize\<close> is the field \<^verbatim>\<open>this.fileSize\<close>, which \<^verbatim>\<open>extractLogs\<close> sets from
  \<^verbatim>\<open>stat\<close> before the call. The result \<open>-1\<close> says that no probe matched.
\<close>

definition binarySearch :: "string \<Rightarrow> int \<Rightarrow> string \<Rightarrow> int outcome" where
  "binarySearch content fileSize targetDate =
     (case searchLoop content targetDate (0, fileSize - 1, - 1) of
        Resolved startPosition \<Rightarrow>
          if startPosition \<noteq> - 1 then backtrack content targetDate startPosition
          else Resolved startPosition
      | Rejected e \<Rightarrow> Rejected e
      | Pending \<Rightarrow> Pending)"

subsection \<open>The file system\<close>

text \<open>
  The part of the file system the extractor touches: the log file at
  \<^verbatim>\<open>logFilePath\<close> (absent, or its content), whether the directory \<^verbatim>\<open>output\<close>
  exists, and the files of that directory by name. The log file is not one of the
  files of the output directory.
\<close>

record world =
  logFile :: "string option"
  outputDirExists :: bool
  outputFiles :: "string \<Rightarrow> string option"

definition initializeOutputDir :: "world \<Rightarrow> world" where
  "initializeOutputDir w =
     (if \<not> outputDirExists w then w\<lparr>outputDirExists := True\<rparr> else w)"

text \<open>
  \<^verbatim>\<open>fs.createWriteStream(path)\<close> opens with flag \<^verbatim>\<open>w\<close>: the file is created or
  truncated. The stream opens its file once it is created, whatever the caller does
  next.
\<close>

definition createWriteStream :: "string \<Rightarrow> world \<Rightarrow> world" where
  "createWriteStream name w = w\<lparr>outputFiles := (outputFiles w)(name \<mapsto> [])\<rparr>"

definition outputName :: "string \<Rightarrow> string" where
  "outputName targetDate = ''output_'' @ targetDate @ ''.txt''"

subsection \<open>Reading lines\<close>

text \<open>
  \<^verbatim>\<open>readline\<close> ends a line at \<^verbatim>\<open>\r\n\<close>, \<^verbatim>\<open>\n\<close> or \<^verbatim>\<open>\r\<close>
  (\<^verbatim>\<open>crlfDelay: Infinity\<close> keeps a \<^verbatim>\<open>\r\n\<close> pair together across chunks) and
  emits what follows the last line end when the input closes, unless that is empty.
  The first argument is the line read so far.
\<close>

fun readlineLines :: "string \<Rightarrow> string \<Rightarrow> string list" where
  "readlineLines buf [] = (if buf = [] then [] else [buf])"
| "readlineLines buf [c] =
     (if c = LF \<or> c = CR then [buf] else [buf @ [c]])"
| "readlineLines buf (c # d # cs) =
     (if c = CR \<and> d = LF then buf # readlineLines [] cs
      else if c = LF \<or> c = CR then buf # readlineLines [] (d # cs)
      else readlineLines (buf @ [c]) (d # cs))"

subsection \<open>\<^verbatim>\<open>extractLogs\<close>\<close>

text \<open>\<^verbatim>\<open>/^\d{4}-\d{2}-\d{2}$/\<close>: without the flag \<^verbatim>\<open>m\<close>, \<^verbatim>\<open>$\<close> is the end of the input.\<close>

definition isDigit :: "char \<Rightarrow> bool" where
  "isDigit c = (CHR ''0'' \<le> c \<and> c \<le> CHR ''9'')"

definition validDateFormat :: "string \<Rightarrow> bool" where
  "validDateFormat targetDate =
     (length targetDate = 10
      \<and> list_all isDigit (take 4 targetDate)
      \<and> targetDate ! 4 = CHR ''-''
      \<and> list_all isDigit (take 2 (drop 5 targetDate))
      \<and> targetDate ! 7 = CHR ''-''
      \<and> list_all isDigit (take 2 (drop 8 targetDate)))"

text \<open>
  The \<^verbatim>\<open>for await (const line of rl)\<close> loop, on the content of the output file
  written so far and \<^verbatim>\<open>matchedLines\<close>.
\<close>

fun scanLines :: "string \<Rightarrow> string list \<Rightarrow> string \<times> int \<Rightarrow> string \<times> int" where
  "scanLines targetDate [] (written, matchedLines) = (written, matchedLines)"
| "scanLines targetDate (line # rest) (written, matchedLines) =
     (let lineDate = take 10 line in
      if lineDate \<noteq> targetDate then (written, matchedLines)
      else scanLines targetDate rest (written @ line @ [LF], matchedLines + 1))"

text \<open>The returned object, without \<^verbatim>\<open>executionTime\<close> (a difference of two clock readings).\<close>

record summary =
  totalLines :: int
  matchedLines :: int

definition extractLogs :: "world \<Rightarrow> string \<Rightarrow> world \<times> summary outcome" where
  "extractLogs w targetDate =
     (if \<not> validDateFormat targetDate then (w, Rejected InvalidDateFormat)
      else
        let w1 = initializeOutputDir w;
            outputPath = outputName targetDate;
            w2 = createWriteStream outputPath w1
        in case logFile w2 of
             None \<Rightarrow> (w2, Rejected ENOENT)
           | Some content \<Rightarrow>
               let fileSize = int (length content) in
               case binarySearch content fileSize targetDate of
                 Pending \<Rightarrow> (w2, Pending)
               | Rejected e \<Rightarrow> (w2, Rejected e)
               | Resolved startPosition \<Rightarrow>
                   if startPosition = - 1
                   then (w2, Resolved \<lparr>totalLines = 0, matchedLines = 0\<rparr>)
                   else if startPosition < 0 then (w2, Rejected ERR_OUT_OF_RANGE)
                   else
                     let lines = readlineLines [] (drop (nat startPosition) content);
                         (written, matched) = scanLines targetDate lines ([], 0)
                     in (w2\<lparr>outputFiles := (outputFiles w2)(outputPath \<mapsto> written)\<rparr>,
                         Resolved \<lparr>totalLines = fileSize, matchedLines = matched\<rparr>))"

subsection \<open>Example files\<close>

text \<open>Four lines, two of them of 2 December.\<close>

definition fourLineFile :: string where
  "fourLineFile =
     ''2024-12-01 A'' @ [LF] @ ''2024-12-02 B'' @ [LF] @
     ''2024-12-02 C'' @ [LF] @ ''2024-12-03 D'' @ [LF]"

text \<open>One line, newline-terminated.\<close>

definition oneLineFile :: string where
  "oneLineFile = ''2024-12-01 A'' @ [LF]"

text \<open>The same line, the final newline missing.\<close>

definition truncatedFile :: string where
  "truncatedFile = ''2024-12-01 A''"

text \<open>One line of 1 December whose message quotes another date.\<close>

definition quotedDateFile :: string where
  "quotedDateFile = ''2024-12-01 2024-12-05X'' @ [LF]"

text \<open>Two lines, the second starting at the middle byte \<open>13\<close> of the \<open>27\<close>.\<close>

definition twoLineFile :: string where
  "twoLineFile = ''2024-12-01 A'' @ [LF] @ ''2024-12-02 BC'' @ [LF]"

text \<open>A file system holding the log file only: no output directory yet.\<close>

definition freshWorld :: "string \<Rightarrow> world" where
  "freshWorld content =
     \<lparr>logFile = Some content, outputDirExists = False, outputFiles = Map.empty\<rparr>"

section \<open>Properties\<close>

declare searchLoop.simps [simp del]
declare backtrack.simps [simp del]

subsection \<open>What a probe reads\<close>

text \<open>
  C2. A probe at an offset strictly inside a line should yield the date at column 0 of
  that line. \<open>getDateAtPosition\<close> takes the first ten characters of what lies between the
  offset and the next newline instead: in the one-line file, whose line is
  \<open>2024-12-01 A\<close>, offset 0 reads \<open>2024-12-01\<close> and offset 3 reads \<open>4-12-01 A\<close>.
\<close>

theorem getDateAtPosition_mid_line_fragment:
  "readlineLines [] oneLineFile = [''2024-12-01 A'']
   \<and> getDateAtPosition oneLineFile 0 = Resolved ''2024-12-01''
   \<and> getDateAtPosition oneLineFile 3 = Resolved ''4-12-01 A''"
  by code_simp

text \<open>
  C3. A probe from which no newline follows should fail with an error that the search
  treats as a non-match. In the file without a final newline the read at offset 5 is
  never settled, and so are the search and the extraction that await it.
\<close>

theorem truncatedFile_read_never_settles:
  "getDateAtPosition truncatedFile 5 = Pending
   \<and> binarySearch truncatedFile (int (length truncatedFile)) ''2024-12-01'' = Pending
   \<and> snd (extractLogs (freshWorld truncatedFile) ''2024-12-01'') = Pending"
  by code_simp

text \<open>The same at every offset that no newline follows.\<close>

lemma getDateAtPosition_pending:
  "0 \<le> position \<Longrightarrow> LF \<notin> set (drop (nat position) content) \<Longrightarrow>
   getDateAtPosition content position = Pending"
  by (simp add: getDateAtPosition_def)

subsection \<open>Search followed by scan\<close>

text \<open>
  C1. For a date present in a sorted file, search and scan should return the lines of
  that date. In the four-line file the lines of 2 December are \<open>2024-12-02 B\<close> and
  \<open>2024-12-02 C\<close>; every probe of the search falls on a newline or inside the last
  line, none reads the target, and the extraction reports no line and leaves the
  output file empty.
\<close>

theorem fourLineFile_extraction_finds_nothing:
  "filter (\<lambda>line. take 10 line = ''2024-12-02'') (readlineLines [] fourLineFile)
     = [''2024-12-02 B'', ''2024-12-02 C'']
   \<and> binarySearch fourLineFile (int (length fourLineFile)) ''2024-12-02'' = Resolved (- 1)
   \<and> snd (extractLogs (freshWorld fourLineFile) ''2024-12-02'')
     = Resolved \<lparr>totalLines = 0, matchedLines = 0\<rparr>
   \<and> outputFiles (fst (extractLogs (freshWorld fourLineFile) ''2024-12-02''))
       (outputName ''2024-12-02'') = Some []"
  by code_simp

text \<open>
  C5. For a date absent from a sorted file the search should find nothing and nothing
  should be written. The only line of the file below is of 1 December; its message
  quotes 5 December at offset 11, which is the first probe for a file of 23 bytes. The
  search for 5 December returns 11 and the scan writes the rest of the line.
\<close>

theorem quotedDateFile_absent_date_found:
  "map (take 10) (readlineLines [] quotedDateFile) = [''2024-12-01'']
   \<and> validDateFormat ''2024-12-05''
   \<and> binarySearch quotedDateFile (int (length quotedDateFile)) ''2024-12-05'' = Resolved 11
   \<and> snd (extractLogs (freshWorld quotedDateFile) ''2024-12-05'')
     = Resolved \<lparr>totalLines = 23, matchedLines = 1\<rparr>
   \<and> outputFiles (fst (extractLogs (freshWorld quotedDateFile) ''2024-12-05''))
       (outputName ''2024-12-05'') = Some (''2024-12-05X'' @ [LF])"
  by code_simp

text \<open>With \<^verbatim>\<open>fileSize\<close> zero the first loop is not entered and the result is \<open>-1\<close>.\<close>

lemma binarySearch_empty: "binarySearch content 0 targetDate = Resolved (- 1)"
  by (simp add: binarySearch_def searchLoop.simps)

subsection \<open>The two loops of the search\<close>

text \<open>What one iteration of the first loop does to \<open>left\<close>, \<open>right\<close> and \<open>startPosition\<close>.\<close>

lemma searchStep_cases:
  assumes "searchStep content targetDate (left, right, startPosition) = Resolved (l', r', s')"
  shows "(l' = left \<and> r' = left + (right - left) div 2 - 1
            \<and> (s' = left + (right - left) div 2 \<or> s' = startPosition))
         \<or> (l' = left + (right - left) div 2 + 1 \<and> r' = right \<and> s' = startPosition)"
  using assms
  by (auto simp: searchStep_def Let_def split: outcome.splits if_splits)

lemma searchStep_shrinks:
  assumes "left \<le> right"
    and "searchStep content targetDate (left, right, startPosition) = Resolved (l', r', s')"
  shows "(left < l' \<and> r' = right \<or> l' = left \<and> r' < right) \<and> r' - l' < right - left"
  using searchStep_cases [OF assms(2)] assms(1) by auto

lemma searchLoop_result:
  "searchLoop content targetDate s = Resolved p \<Longrightarrow>
   p = snd (snd s) \<or> (fst s \<le> p \<and> p \<le> fst (snd s))"
proof (induction content targetDate s rule: searchLoop.induct)
  case (1 content targetDate left right startPosition)
  show ?case
  proof (cases "left \<le> right")
    case False
    with "1.prems" show ?thesis by (simp add: searchLoop.simps)
  next
    case True
    with "1.prems" obtain s' where
      step: "searchStep content targetDate (left, right, startPosition) = Resolved s'"
      and loop: "searchLoop content targetDate s' = Resolved p"
      by (auto simp: searchLoop.simps split: outcome.splits)
    obtain l' r' sp' where s': "s' = (l', r', sp')" by (cases s')
    from "1.IH" [OF True step loop]
    have "p = sp' \<or> (l' \<le> p \<and> p \<le> r')" by (simp add: s')
    with searchStep_cases [OF step [unfolded s']] True show ?thesis by auto
  qed
qed

lemma backtrack_result:
  "backtrack content targetDate startPosition = Resolved p \<Longrightarrow> 0 \<le> startPosition \<Longrightarrow>
   0 \<le> p \<and> p \<le> startPosition
   \<and> (p = 0 \<or> (\<exists>d. getDateAtPosition content (p - 1) = Resolved d \<and> d \<noteq> targetDate))"
proof (induction content targetDate startPosition rule: backtrack.induct)
  case (1 content targetDate startPosition)
  show ?case
  proof (cases "startPosition > 0")
    case False
    with "1.prems" show ?thesis by (simp add: backtrack.simps)
  next
    case True
    with "1.prems" obtain prevDate where
      rd: "getDateAtPosition content (startPosition - 1) = Resolved prevDate"
      by (auto simp: backtrack.simps split: outcome.splits)
    show ?thesis
    proof (cases "prevDate \<noteq> targetDate")
      case True
      with \<open>startPosition > 0\<close> rd "1.prems" show ?thesis
        by (auto simp: backtrack.simps)
    next
      case False
      with \<open>startPosition > 0\<close> rd "1.prems"
      have "backtrack content targetDate (startPosition - 1) = Resolved p"
        by (simp add: backtrack.simps)
      from "1.IH" [OF \<open>startPosition > 0\<close> rd False this] \<open>startPosition > 0\<close>
      show ?thesis by auto
    qed
  qed
qed

lemma searchLoop_total:
  "\<forall>pos. 0 \<le> pos \<and> pos < fileSize \<longrightarrow> (\<exists>d. getDateAtPosition content pos = Resolved d) \<Longrightarrow>
   0 \<le> fst s \<Longrightarrow> fst (snd s) < fileSize \<Longrightarrow>
   \<exists>p. searchLoop content targetDate s = Resolved p"
proof (induction content targetDate s rule: searchLoop.induct)
  case (1 content targetDate left right startPosition)
  note reads = "1.prems"(1)
  show ?case
  proof (cases "left \<le> right")
    case False
    then show ?thesis by (simp add: searchLoop.simps)
  next
    case True
    let ?mid = "left + (right - left) div 2"
    from True "1.prems" have "0 \<le> ?mid \<and> ?mid < fileSize" by auto
    with reads obtain d where "getDateAtPosition content ?mid = Resolved d" by blast
    then have "\<exists>s'. searchStep content targetDate (left, right, startPosition) = Resolved s'"
      by (simp add: searchStep_def Let_def)
    then obtain s' where
      step: "searchStep content targetDate (left, right, startPosition) = Resolved s'"
      by blast
    obtain l' r' sp' where s': "s' = (l', r', sp')" by (cases s')
    from searchStep_cases [OF step [unfolded s']] True "1.prems"
    have "0 \<le> l'" "r' < fileSize" by auto
    with "1.IH" [OF True step reads] s'
    have "\<exists>p. searchLoop content targetDate s' = Resolved p" by simp
    with True step show ?thesis by (simp add: searchLoop.simps)
  qed
qed

lemma backtrack_total:
  "\<forall>pos. 0 \<le> pos \<and> pos < fileSize \<longrightarrow> (\<exists>d. getDateAtPosition content pos = Resolved d) \<Longrightarrow>
   startPosition \<le> fileSize \<Longrightarrow>
   \<exists>p. backtrack content targetDate startPosition = Resolved p"
proof (induction content targetDate startPosition rule: backtrack.induct)
  case (1 content targetDate startPosition)
  note reads = "1.prems"(1)
  show ?case
  proof (cases "startPosition > 0")
    case False
    then show ?thesis by (simp add: backtrack.simps)
  next
    case True
    with "1.prems" have "0 \<le> startPosition - 1 \<and> startPosition - 1 < fileSize" by auto
    with reads obtain prevDate where
      rd: "getDateAtPosition content (startPosition - 1) = Resolved prevDate" by blast
    show ?thesis
    proof (cases "prevDate \<noteq> targetDate")
      case True
      with \<open>startPosition > 0\<close> rd show ?thesis by (simp add: backtrack.simps)
    next
      case False
      from "1.IH" [OF \<open>startPosition > 0\<close> rd False reads] "1.prems"(2)
      have "\<exists>p. backtrack content targetDate (startPosition - 1) = Resolved p" by simp
      with \<open>startPosition > 0\<close> rd False show ?thesis by (simp add: backtrack.simps)
    qed
  qed
qed

lemma getDateAtPosition_resolves:
  assumes "content \<noteq> []" and "last content = LF"
    and "0 \<le> pos" and "pos < int (length content)"
  shows "\<exists>d. getDateAtPosition content pos = Resolved d"
proof -
  from assms have ne: "drop (nat pos) content \<noteq> []" by simp
  then have "last (drop (nat pos) content) = LF" using assms by simp
  with ne have "LF \<in> set (drop (nat pos) content)" by (metis last_in_set)
  with assms(3) show ?thesis by (simp add: getDateAtPosition_def Let_def)
qed


text \<open>
  C6. When the probed date equals the target, the first loop goes on with
  \<open>right = mid - 1\<close> and the midpoint as candidate: equality does not leave the loop.
  The second loop probes \<open>candidate - 1\<close>, goes on with \<open>candidate - 1\<close> when that
  reads the target, stops at the candidate when it reads something else, and stops at
  0. Hence a search that returns a position \<open>p\<close> other than \<open>-1\<close> has \<open>p = 0\<close> or a
  read at \<open>p - 1\<close> that differs from the target.
\<close>

theorem binarySearch_first_occurrence:
  "(left \<le> right \<and> getDateAtPosition content (left + (right - left) div 2) = Resolved targetDate
      \<longrightarrow> searchLoop content targetDate (left, right, startPosition)
          = searchLoop content targetDate
              (left, left + (right - left) div 2 - 1, left + (right - left) div 2))
   \<and> (0 < candidate \<and> getDateAtPosition content (candidate - 1) = Resolved targetDate
      \<longrightarrow> backtrack content targetDate candidate
          = backtrack content targetDate (candidate - 1))
   \<and> (0 < candidate \<and> getDateAtPosition content (candidate - 1) = Resolved d
        \<and> d \<noteq> targetDate
      \<longrightarrow> backtrack content targetDate candidate = Resolved candidate)
   \<and> backtrack content targetDate 0 = Resolved 0
   \<and> (binarySearch content fileSize targetDate = Resolved p \<and> p \<noteq> - 1
      \<longrightarrow> p = 0 \<or> (\<exists>d. getDateAtPosition content (p - 1) = Resolved d \<and> d \<noteq> targetDate))"
proof -
  have equal: "searchLoop content targetDate (left, right, startPosition)
      = searchLoop content targetDate
          (left, left + (right - left) div 2 - 1, left + (right - left) div 2)"
    if "left \<le> right \<and> getDateAtPosition content (left + (right - left) div 2) = Resolved targetDate"
    using that by (subst searchLoop.simps) (simp add: searchStep_def Let_def)
  have again: "backtrack content targetDate candidate
      = backtrack content targetDate (candidate - 1)"
    if "0 < candidate \<and> getDateAtPosition content (candidate - 1) = Resolved targetDate"
    using that by (subst backtrack.simps) simp
  have stops: "backtrack content targetDate candidate = Resolved candidate"
    if "0 < candidate \<and> getDateAtPosition content (candidate - 1) = Resolved d
      \<and> d \<noteq> targetDate"
    using that by (subst backtrack.simps) simp
  have zero: "backtrack content targetDate 0 = Resolved 0"
    by (subst backtrack.simps) simp
  have present: "p = 0 \<or> (\<exists>d. getDateAtPosition content (p - 1) = Resolved d \<and> d \<noteq> targetDate)"
    if ret: "binarySearch content fileSize targetDate = Resolved p \<and> p \<noteq> - 1"
  proof -
    from ret obtain q where
      q: "searchLoop content targetDate (0, fileSize - 1, - 1) = Resolved q"
      by (auto simp: binarySearch_def split: outcome.splits)
    with ret have "q \<noteq> - 1" by (auto simp: binarySearch_def)
    with q ret have bt: "backtrack content targetDate q = Resolved p"
      by (simp add: binarySearch_def)
    from searchLoop_result [OF q] \<open>q \<noteq> - 1\<close> have "0 \<le> q" by auto
    from backtrack_result [OF bt this] show ?thesis by blast
  qed
  from equal again stops zero present show ?thesis by blast
qed

theorem binarySearch_first_occurrence_witness:
  "binarySearch twoLineFile 27 ''2024-12-02'' = Resolved 13
   \<and> getDateAtPosition twoLineFile 13 = Resolved ''2024-12-02''
   \<and> searchLoop twoLineFile ''2024-12-02'' (0, 26, - 1)
       = searchLoop twoLineFile ''2024-12-02'' (0, 12, 13)
   \<and> getDateAtPosition twoLineFile 12 = Resolved ''''
   \<and> backtrack twoLineFile ''2024-12-02'' 13 = Resolved 13"
proof -
  have ret: "binarySearch twoLineFile 27 ''2024-12-02'' = Resolved 13"
    by code_simp
  have mid: "getDateAtPosition twoLineFile 13 = Resolved ''2024-12-02''"
    by code_simp
  have prev: "getDateAtPosition twoLineFile 12 = Resolved ''''"
    by code_simp
  note inst = binarySearch_first_occurrence
    [where left = 0 and right = 26 and content = twoLineFile and targetDate = "''2024-12-02''"
       and startPosition = "- 1" and candidate = 13 and d = "[]" and fileSize = 27 and p = 13]
  from inst mid have "searchLoop twoLineFile ''2024-12-02'' (0, 26, - 1)
       = searchLoop twoLineFile ''2024-12-02'' (0, 12, 13)" by simp
  moreover from inst prev have "backtrack twoLineFile ''2024-12-02'' 13 = Resolved 13" by simp
  ultimately show ?thesis using ret mid prev by simp
qed

text \<open>
  C10. If every read at an offset of \<open>[0, fileSize)\<close> returns, the search returns.
  Each iteration of the first loop moves \<open>left\<close> up or \<open>right\<close> down, so the interval
  shrinks; the second loop ends between 0 and the candidate it started from, and each
  iteration that goes on lowers the candidate by one.
\<close>

theorem binarySearch_terminates:
  assumes "\<forall>pos. 0 \<le> pos \<and> pos < fileSize \<longrightarrow> (\<exists>d. getDateAtPosition content pos = Resolved d)"
  shows "(\<exists>p. binarySearch content fileSize targetDate = Resolved p)
    \<and> (\<forall>left right startPosition l' r' s'.
          left \<le> right \<and>
          searchStep content targetDate (left, right, startPosition) = Resolved (l', r', s')
          \<longrightarrow> (left < l' \<and> r' = right \<or> l' = left \<and> r' < right) \<and> r' - l' < right - left)
    \<and> (\<forall>startPosition p. 0 \<le> startPosition \<and>
          backtrack content targetDate startPosition = Resolved p
          \<longrightarrow> 0 \<le> p \<and> p \<le> startPosition)
    \<and> (\<forall>startPosition. 0 < startPosition \<and>
          getDateAtPosition content (startPosition - 1) = Resolved targetDate
          \<longrightarrow> backtrack content targetDate startPosition
              = backtrack content targetDate (startPosition - 1))"
proof -
  note reads = assms
  have "\<exists>q. searchLoop content targetDate (0, fileSize - 1, - 1) = Resolved q"
    using searchLoop_total [OF reads, of "(0, fileSize - 1, - 1)" targetDate] by simp
  then obtain q where q: "searchLoop content targetDate (0, fileSize - 1, - 1) = Resolved q"
    by blast
  from searchLoop_result [OF q] have "q = - 1 \<or> q \<le> fileSize" by auto
  then have returns: "\<exists>p. binarySearch content fileSize targetDate = Resolved p"
  proof
    assume "q = - 1"
    with q show ?thesis by (simp add: binarySearch_def)
  next
    assume "q \<le> fileSize"
    from backtrack_total [OF reads this, of targetDate]
    obtain p where "backtrack content targetDate q = Resolved p" by blast
    with q show ?thesis by (simp add: binarySearch_def)
  qed
  have shrinks: "(left < l' \<and> r' = right \<or> l' = left \<and> r' < right) \<and> r' - l' < right - left"
    if "left \<le> right \<and>
      searchStep content targetDate (left, right, startPosition) = Resolved (l', r', s')"
    for left right startPosition l' r' s'
    using that searchStep_shrinks by blast
  have bounded: "0 \<le> p \<and> p \<le> startPosition"
    if "0 \<le> startPosition \<and> backtrack content targetDate startPosition = Resolved p"
    for startPosition p
    using that backtrack_result by blast
  have decrements: "backtrack content targetDate startPosition
      = backtrack content targetDate (startPosition - 1)"
    if "0 < startPosition \<and> getDateAtPosition content (startPosition - 1) = Resolved targetDate"
    for startPosition
    using that by (subst backtrack.simps) simp
  from returns shrinks bounded decrements show ?thesis by blast
qed

theorem binarySearch_terminates_witness:
  "\<exists>p. binarySearch twoLineFile 27 ''2024-12-02'' = Resolved p"
proof -
  have ne: "twoLineFile \<noteq> []" and lst: "last twoLineFile = LF" and len: "int (length twoLineFile) = 27"
    by (simp_all add: twoLineFile_def)
  have "\<forall>pos. 0 \<le> pos \<and> pos < 27 \<longrightarrow> (\<exists>d. getDateAtPosition twoLineFile pos = Resolved d)"
    using getDateAtPosition_resolves [OF ne lst] len by simp
  from binarySearch_terminates [OF this, of "''2024-12-02''"] show ?thesis by blast
qed

subsection \<open>The extraction\<close>

text \<open>
  C4. A target date that is not of the shape of four digits, a hyphen, two digits, a
  hyphen and two digits is rejected with \<open>InvalidDateFormat\<close> and the file system is
  left as it was, whatever it holds: the directory is not created, no output file is
  opened, and the log file, present or not, is not looked at.
\<close>

theorem malformed_date_rejected_first:
  "\<not> validDateFormat targetDate \<Longrightarrow> extractLogs w targetDate = (w, Rejected InvalidDateFormat)"
  by (simp add: extractLogs_def)

theorem malformed_date_rejected_first_witness:
  "extractLogs (freshWorld oneLineFile) ''20241201''
     = (freshWorld oneLineFile, Rejected InvalidDateFormat)
   \<and> extractLogs (freshWorld oneLineFile) '''' = (freshWorld oneLineFile, Rejected InvalidDateFormat)
   \<and> extractLogs \<lparr>logFile = None, outputDirExists = False, outputFiles = Map.empty\<rparr> ''2024/12/01''
     = (\<lparr>logFile = None, outputDirExists = False, outputFiles = Map.empty\<rparr>,
        Rejected InvalidDateFormat)"
proof -
  have "\<not> validDateFormat ''20241201''" "\<not> validDateFormat ''''" "\<not> validDateFormat ''2024/12/01''"
    by (simp_all add: validDateFormat_def)
  then show ?thesis
    using malformed_date_rejected_first [of "''20241201''" "freshWorld oneLineFile"]
      malformed_date_rejected_first [of "''''" "freshWorld oneLineFile"]
      malformed_date_rejected_first [of "''2024/12/01''"
        "\<lparr>logFile = None, outputDirExists = False, outputFiles = Map.empty\<rparr>"]
    by simp
qed

text \<open>
  The check is one of shape only: \<open>2024-13-40\<close> passes it, the output directory and the
  output file are created and the search runs.
\<close>

theorem shaped_non_date_accepted:
  "validDateFormat ''2024-13-40''
   \<and> snd (extractLogs (freshWorld oneLineFile) ''2024-13-40'')
     = Resolved \<lparr>totalLines = 0, matchedLines = 0\<rparr>
   \<and> outputDirExists (fst (extractLogs (freshWorld oneLineFile) ''2024-13-40''))
   \<and> outputFiles (fst (extractLogs (freshWorld oneLineFile) ''2024-13-40''))
       ''output_2024-13-40.txt'' = Some []"
  by code_simp

text \<open>
  C7. When the extraction returns a summary, \<open>totalLines\<close> is the size of the log file
  in bytes if the search returned a position, and 0 if the search returned \<open>-1\<close>.
\<close>

theorem totalLines_is_fileSize:
  assumes "extractLogs w targetDate = (w', Resolved s)"
    and "logFile w = Some content"
  shows "totalLines s =
    (if binarySearch content (int (length content)) targetDate = Resolved (- 1) then 0
     else int (length content))"
  using assms
  by (auto simp: extractLogs_def Let_def initializeOutputDir_def createWriteStream_def
      split: if_splits option.splits outcome.splits prod.splits)

theorem totalLines_is_fileSize_witness:
  "int (length twoLineFile) = 27
   \<and> binarySearch twoLineFile 27 ''2024-12-02'' = Resolved 13
   \<and> snd (extractLogs (freshWorld twoLineFile) ''2024-12-02'')
      = Resolved \<lparr>totalLines = 27, matchedLines = 1\<rparr>
   \<and> totalLines \<lparr>totalLines = 27, matchedLines = 1\<rparr> = int (length twoLineFile)"
proof -
  have run: "snd (extractLogs (freshWorld twoLineFile) ''2024-12-02'')
      = Resolved \<lparr>totalLines = 27, matchedLines = 1\<rparr>"
    by code_simp
  have found: "binarySearch twoLineFile 27 ''2024-12-02'' = Resolved 13"
    by code_simp
  have len: "int (length twoLineFile) = 27"
    by (simp add: twoLineFile_def)
  have "extractLogs (freshWorld twoLineFile) ''2024-12-02''
    = (fst (extractLogs (freshWorld twoLineFile) ''2024-12-02''),
       Resolved \<lparr>totalLines = 27, matchedLines = 1\<rparr>)"
    using run by (simp add: prod_eq_iff)
  from totalLines_is_fileSize [OF this, of twoLineFile] found len
  show ?thesis using run by (simp add: freshWorld_def)
qed

text \<open>
  The one-line file has 13 bytes; for a date the search does not find, the summary
  has \<open>totalLines = 0\<close>.
\<close>

theorem totalLines_zero_when_not_found:
  "snd (extractLogs (freshWorld oneLineFile) ''2024-12-02'')
     = Resolved \<lparr>totalLines = 0, matchedLines = 0\<rparr>
   \<and> int (length oneLineFile) = 13"
  by code_simp

text \<open>Opening the output again: the directory is there and the file is truncated.\<close>

lemma reopen_output:
  "outputDirExists w' \<Longrightarrow> createWriteStream name (initializeOutputDir w') = createWriteStream name w'"
  by (simp add: initializeOutputDir_def)

lemma createWriteStream_again:
  "createWriteStream name (createWriteStream name w) = createWriteStream name w"
  by (simp add: createWriteStream_def)

lemma createWriteStream_truncates:
  "createWriteStream name (createWriteStream name w\<lparr>outputFiles := (outputFiles (createWriteStream name w))(name \<mapsto> written)\<rparr>)
     = createWriteStream name w"
  by (simp add: createWriteStream_def)

lemma initializeOutputDir_exists: "outputDirExists (initializeOutputDir w)"
  by (simp add: initializeOutputDir_def)

lemma createWriteStream_fields:
  "outputDirExists (createWriteStream name w) = outputDirExists w"
  "logFile (createWriteStream name w) = logFile w"
  "outputFiles (createWriteStream name w) name = Some []"
  by (simp_all add: createWriteStream_def)

lemma initializeOutputDir_logFile: "logFile (initializeOutputDir w) = logFile w"
  by (simp add: initializeOutputDir_def)

text \<open>
  A second extraction for the same date, run on the file system the first one left,
  gives the same outcome and leaves the same file system.
\<close>

lemma extractLogs_again:
  "extractLogs (fst (extractLogs w targetDate)) targetDate = extractLogs w targetDate"
proof (cases "validDateFormat targetDate")
  case False
  then show ?thesis by (simp add: extractLogs_def)
next
  case True
  define name where "name = outputName targetDate"
  define w2 where "w2 = createWriteStream name (initializeOutputDir w)"
  have dir: "outputDirExists w2"
    by (simp add: w2_def createWriteStream_fields initializeOutputDir_exists)
  have lf: "logFile w2 = logFile w"
    by (simp add: w2_def createWriteStream_fields initializeOutputDir_logFile)
  have same: "createWriteStream name (initializeOutputDir w2) = w2"
    using dir by (simp add: reopen_output) (simp add: w2_def createWriteStream_again)
  have run: "extractLogs w2 targetDate = extractLogs w targetDate"
    using True same lf
    by (auto simp: extractLogs_def Let_def name_def [symmetric] w2_def [symmetric]
        split: option.splits outcome.splits prod.splits)
  show ?thesis
  proof (cases "fst (extractLogs w targetDate) = w2")
    case True
    with run show ?thesis by simp
  next
    case False
    with \<open>validDateFormat targetDate\<close> obtain written where
      w': "fst (extractLogs w targetDate) = w2\<lparr>outputFiles := (outputFiles w2)(name \<mapsto> written)\<rparr>"
      by (auto simp: extractLogs_def Let_def name_def [symmetric] w2_def [symmetric]
          split: option.splits outcome.splits if_splits prod.splits)
    let ?w' = "w2\<lparr>outputFiles := (outputFiles w2)(name \<mapsto> written)\<rparr>"
    have "outputDirExists ?w'" using dir by simp
    then have "createWriteStream name (initializeOutputDir ?w') = createWriteStream name ?w'"
      by (rule reopen_output)
    also have "\<dots> = w2"
      by (simp add: w2_def createWriteStream_def)
    finally have "createWriteStream name (initializeOutputDir ?w') = w2" .
    moreover have "logFile ?w' = logFile w" using lf by simp
    ultimately have "extractLogs ?w' targetDate = extractLogs w targetDate"
      using \<open>validDateFormat targetDate\<close>
      by (auto simp: extractLogs_def Let_def name_def [symmetric] w2_def [symmetric]
          split: option.splits outcome.splits prod.splits)
    with w' show ?thesis by simp
  qed
qed

lemma extractLogs_logFile: "logFile (fst (extractLogs w targetDate)) = logFile w"
  by (auto simp: extractLogs_def Let_def initializeOutputDir_def createWriteStream_def
      split: option.splits outcome.splits prod.splits)

text \<open>
  C8. For a log file with a fixed content and a target date of the required shape,
  the extraction leaves the log file as it is, and a second extraction for the same
  date, run after the first, gives the same outcome (the same \<open>matchedLines\<close>) and
  leaves the same file system (the same bytes in the output file).
\<close>

theorem extractLogs_twice:
  assumes "logFile w = Some content" and "validDateFormat targetDate"
  shows "logFile (fst (extractLogs w targetDate)) = Some content
    \<and> snd (extractLogs (fst (extractLogs w targetDate)) targetDate)
        = snd (extractLogs w targetDate)
    \<and> outputFiles (fst (extractLogs (fst (extractLogs w targetDate)) targetDate))
          (outputName targetDate)
        = outputFiles (fst (extractLogs w targetDate)) (outputName targetDate)
    \<and> fst (extractLogs (fst (extractLogs w targetDate)) targetDate)
        = fst (extractLogs w targetDate)"
  using assms(1) by (simp add: extractLogs_again extractLogs_logFile)

theorem extractLogs_twice_witness:
  "outputFiles (fst (extractLogs (freshWorld twoLineFile) ''2024-12-02''))
       ''output_2024-12-02.txt'' = Some (''2024-12-02 BC'' @ [LF])
   \<and> snd (extractLogs (freshWorld twoLineFile) ''2024-12-02'')
       = Resolved \<lparr>totalLines = 27, matchedLines = 1\<rparr>
   \<and> outputFiles (fst (extractLogs (fst (extractLogs (freshWorld twoLineFile) ''2024-12-02''))
         ''2024-12-02'')) ''output_2024-12-02.txt'' = Some (''2024-12-02 BC'' @ [LF])
   \<and> snd (extractLogs (fst (extractLogs (freshWorld twoLineFile) ''2024-12-02'')) ''2024-12-02'')
       = Resolved \<lparr>totalLines = 27, matchedLines = 1\<rparr>"
proof -
  have logf: "logFile (freshWorld twoLineFile) = Some twoLineFile"
    by (simp add: freshWorld_def)
  have valid: "validDateFormat ''2024-12-02''"
    by code_simp
  have first: "outputFiles (fst (extractLogs (freshWorld twoLineFile) ''2024-12-02''))
       ''output_2024-12-02.txt'' = Some (''2024-12-02 BC'' @ [LF])"
    "snd (extractLogs (freshWorld twoLineFile) ''2024-12-02'')
       = Resolved \<lparr>totalLines = 27, matchedLines = 1\<rparr>"
    by code_simp+
  from extractLogs_twice [OF logf valid] first show ?thesis
    by (simp add: outputName_def)
qed

text \<open>
  C9. For a target date of the required shape, the output directory exists and the
  output file exists after the call whatever the search does, also when it never
  returns; when the search returns \<open>-1\<close>, the extraction returns the summary of zero
  matches and the output file is left empty.
\<close>

theorem output_file_created_before_search:
  assumes "validDateFormat targetDate"
  shows "outputDirExists (fst (extractLogs w targetDate))
    \<and> outputFiles (fst (extractLogs w targetDate)) (outputName targetDate) \<noteq> None
    \<and> (\<forall>content. logFile w = Some content
          \<and> binarySearch content (int (length content)) targetDate = Resolved (- 1)
        \<longrightarrow> extractLogs w targetDate
            = (w\<lparr>outputDirExists := True,
                 outputFiles := (outputFiles w)(outputName targetDate \<mapsto> [])\<rparr>,
               Resolved \<lparr>totalLines = 0, matchedLines = 0\<rparr>))"
  using assms
  by (auto simp: extractLogs_def Let_def initializeOutputDir_def createWriteStream_def
      split: option.splits outcome.splits prod.splits)

theorem output_file_created_before_search_witness:
  "extractLogs (freshWorld oneLineFile) ''2024-12-02''
     = (\<lparr>logFile = Some oneLineFile, outputDirExists = True,
         outputFiles = [''output_2024-12-02.txt'' \<mapsto> []]\<rparr>,
        Resolved \<lparr>totalLines = 0, matchedLines = 0\<rparr>)
   \<and> outputFiles (fst (extractLogs (freshWorld truncatedFile) ''2024-12-01''))
       ''output_2024-12-01.txt'' = Some []"
proof -
  have valid: "validDateFormat ''2024-12-02''"
    by code_simp
  have search: "binarySearch oneLineFile (int (length oneLineFile)) ''2024-12-02'' = Resolved (- 1)"
    by code_simp
  have "logFile (freshWorld oneLineFile) = Some oneLineFile"
    by (simp add: freshWorld_def)
  with output_file_created_before_search [OF valid, of "freshWorld oneLineFile"] search
  have "extractLogs (freshWorld oneLineFile) ''2024-12-02''
     = (freshWorld oneLineFile\<lparr>outputDirExists := True,
          outputFiles := (outputFiles (freshWorld oneLineFile))(outputName ''2024-12-02'' \<mapsto> [])\<rparr>,
        Resolved \<lparr>totalLines = 0, matchedLines = 0\<rparr>)"
    by blast
  moreover have "outputFiles (fst (extractLogs (freshWorld truncatedFile) ''2024-12-01''))
       ''output_2024-12-01.txt'' = Some []"
    by code_simp
  ultimately show ?thesis by (simp add: freshWorld_def outputName_def)
qed

end
